theory Spec2Isabelle
  imports Main "HOL-Library.Sublist"
begin

section \<open>Platform values used by the service worker\<close>

text \<open>
  Strings. A \<^typ>\<open>string\<close> is a list of 8-bit characters. Header names and values are
  byte strings in the Fetch standard, one character per byte. Every other JavaScript
  string (URLs, query values, the template text, bodies) is represented by its UTF-8
  encoding, so that \<open>new TextEncoder().encode(s).length\<close> is \<^term>\<open>length s\<close>. The strings
  the code compares and cuts (\<open>===\<close>, \<open>startsWith\<close>, \<open>split("?")\<close>) are compared and cut at
  ASCII characters only, where both readings agree.
\<close>

text \<open>
  A thrown or rejected value (\<open>unknown\<close> in the source). Two shapes are enough for the code:
  a primitive string, and an Error object with its \<open>name\<close> and \<open>message\<close>.
\<close>

datatype js_value = JsString string | JsError string string

text \<open>\<open>String(err)\<close>: a string is itself, an Error prints as \<open>Error.prototype.toString\<close> does.\<close>

fun js_String :: "js_value \<Rightarrow> string" where
  "js_String (JsString s) = s"
| "js_String (JsError name msg) =
     (if name = [] then msg else if msg = [] then name else name @ '': '' @ msg)"

text \<open>\<open>Number.prototype.toString()\<close> on a non-negative integer: its decimal digits.\<close>

fun toString :: "nat \<Rightarrow> string" where
  "toString n =
     (if n < 10 then [char_of (48 + n)]
      else toString (n div 10) @ [char_of (48 + n mod 10)])"

declare toString.simps [simp del]

subsection \<open>Headers\<close>

type_synonym header_list = "(string \<times> string) list"

definition lowerc :: "char \<Rightarrow> char" where
  "lowerc c = (let n = (of_char c :: nat) in if 65 \<le> n \<and> n \<le> 90 then char_of (n + 32) else c)"

definition same_name :: "string \<Rightarrow> string \<Rightarrow> bool" where
  "same_name a b = (map lowerc a = map lowerc b)"

fun join_values :: "string list \<Rightarrow> string" where
  "join_values [] = []"
| "join_values [v] = v"
| "join_values (v # w # vs) = v @ '', '' @ join_values (w # vs)"

text \<open>
  \<open>Headers.get(name)\<close>: the values of every entry whose name matches byte-case-insensitively,
  in insertion order, joined by a comma and a space; \<open>null\<close> when there is none.
\<close>

definition headers_get :: "header_list \<Rightarrow> string \<Rightarrow> string option" where
  "headers_get hs name =
     (let vs = map snd (filter (\<lambda>h. same_name (fst h) name) hs)
      in if vs = [] then None else Some (join_values vs))"

definition headers_has :: "header_list \<Rightarrow> string \<Rightarrow> bool" where
  "headers_has hs name = (filter (\<lambda>h. same_name (fst h) name) hs \<noteq> [])"

text \<open>
  The guard of a Headers object. The headers of a response built with \<open>new Response\<close>
  have the guard "response"; those of a response that came from \<open>fetch\<close>, from the Cache
  API, or from \<open>Response.redirect\<close> and \<open>Response.error\<close> are immutable.
\<close>

datatype header_guard = GuardImmutable | GuardResponse

definition forbiddenResponseHeaderName :: "string \<Rightarrow> bool" where
  "forbiddenResponseHeaderName name =
     (same_name name ''Set-Cookie'' \<or> same_name name ''Set-Cookie2'')"

text \<open>
  \<open>Headers.append(name, value)\<close> for a legal name and value: on immutable headers it throws a
  TypeError (the message is the engine's); under the guard "response" a forbidden
  response-header name is dropped silently; otherwise there is a new entry at the end,
  and earlier entries are kept.
\<close>

definition headers_append ::
  "header_guard \<Rightarrow> header_list \<Rightarrow> string \<Rightarrow> string \<Rightarrow> js_value + header_list" where
  "headers_append g hs name v =
     (if g = GuardImmutable then Inl (JsError ''TypeError'' ''immutable'')
      else if forbiddenResponseHeaderName name then Inr hs
      else Inr (hs @ [(name, v)]))"

subsection \<open>Requests, responses, promises, observable calls\<close>

record Request =
  url :: string
  headers :: header_list
  mode :: string
  destination :: string

record Response =
  status :: nat
  statusText :: string
  res_headers :: header_list
  headers_guard :: header_guard
  body :: string

text \<open>\<open>Response.ok\<close>: the status is in the range 200 to 299.\<close>

definition ok :: "Response \<Rightarrow> bool" where
  "ok r = (200 \<le> status r \<and> status r \<le> 299)"

text \<open>An awaited promise either resolves with a value or rejects with a cause.\<close>

datatype 'a settled = Resolved 'a | Rejected js_value

text \<open>
  \<open>return f(x)\<close> in an async function, for a call that may throw: the function's promise
  resolves with the value or rejects with what was thrown.
\<close>

fun returned :: "js_value + 'a \<Rightarrow> 'a settled" where
  "returned (Inl thrown) = Rejected thrown"
| "returned (Inr v) = Resolved v"

text \<open>The argument of \<open>fetch\<close>: a Request object or a URL string.\<close>

datatype fetch_input = InRequest Request | InUrl string

text \<open>
  The calls a resolution makes on its collaborators, in order: the network function with
  its argument, the cache resolver with URL and client id, the log function with its line.
\<close>

datatype effect = NetworkCall fetch_input | CacheCall string string | LogCall string

definition networkCalled :: "effect list \<Rightarrow> bool" where
  "networkCalled tr = list_ex (\<lambda>e. case e of NetworkCall i \<Rightarrow> True | _ \<Rightarrow> False) tr"

definition cacheCalled :: "effect list \<Rightarrow> bool" where
  "cacheCalled tr = list_ex (\<lambda>e. case e of CacheCall u c \<Rightarrow> True | _ \<Rightarrow> False) tr"

text \<open>
  The two collaborators. \<open>networkFetch\<close> has the type of \<open>fetch\<close> and the cache resolver
  is an async function: a call returns a promise, and the model gives how that promise
  settles. Each is called at most once in a resolution. The log function is taken not to
  throw.
\<close>

type_synonym network = "fetch_input \<Rightarrow> Response settled"
type_synonym file_getter = "string \<Rightarrow> string \<Rightarrow> Response option settled"

section \<open>serviceWorkerMeta: the shared contracts\<close>

definition serviceWorkerCacheHitHeader_key :: string where
  "serviceWorkerCacheHitHeader_key = ''X-Cache-Hit''"

definition serviceWorkerCacheHitHeader_value :: string where
  "serviceWorkerCacheHitHeader_value = ''SW HIT''"

definition serviceWorkerErrorCatchHeader :: string where
  "serviceWorkerErrorCatchHeader = ''Sw-Net-Err''"

definition serviceWorkerPolicyHeader :: string where
  "serviceWorkerPolicyHeader = ''Sw-Policy''"

definition NETWORK_FIRST_POLICY :: int where "NETWORK_FIRST_POLICY = 1"
definition NETWORK_ONLY_POLICY :: int where "NETWORK_ONLY_POLICY = 2"
definition CACHE_FIRST_POLICY :: int where "CACHE_FIRST_POLICY = 3"
definition CACHE_ONLY_POLICY :: int where "CACHE_ONLY_POLICY = 4"

text \<open>
  \<open>cacheHit\<close> appends to the headers of the response it is given and returns that
  response; when the append throws, so does \<open>cacheHit\<close>.
\<close>

definition cacheHit :: "Response \<Rightarrow> js_value + Response" where
  "cacheHit response =
     (case headers_append (headers_guard response) (res_headers response)
             serviceWorkerCacheHitHeader_key serviceWorkerCacheHitHeader_value of
        Inl thrown \<Rightarrow> Inl thrown
      | Inr hs \<Rightarrow> Inr (response\<lparr>res_headers := hs\<rparr>))"

text \<open>
  \<open>new Response(body, {status, statusText, headers})\<close> with a string body. The header
  record is copied entry by entry; a string body brings its own type, which the
  constructor adds when the record names no content type. The statuses the code passes
  are 200, 404 and 500, and header names and values (those written in the code, and the
  configured ones) are taken to be legal, so the constructor does not throw.
\<close>

definition new_Response :: "string \<Rightarrow> nat \<Rightarrow> string \<Rightarrow> header_list \<Rightarrow> Response" where
  "new_Response b st stText hs =
     \<lparr>status = st, statusText = stText,
      res_headers =
        (if headers_has hs ''content-type'' then hs
         else hs @ [(''content-type'', ''text/plain;charset=UTF-8'')]),
      headers_guard = GuardResponse,
      body = b\<rparr>"

definition NOT_FOUND_RESPONSE :: Response where
  "NOT_FOUND_RESPONSE = new_Response ''not found'' 404 ''NOT FOUND'' []"

definition errorResponse :: "js_value \<Rightarrow> Response" where
  "errorResponse err =
     new_Response (js_String err) 500 ''INTERNAL SERVER ERROR''
       [(serviceWorkerErrorCatchHeader, ''1'')]"

text \<open>
  \<open>logRequest\<close>. The log function is a collaborator; what reaches it is recorded as a
  \<^const>\<open>LogCall\<close>. \<open>!!cached\<close> prints as true or false, and \<open>cached?.status || "none"\<close> is
  "none" for a missing entry and for status 0.
\<close>

definition logRequest :: "string \<Rightarrow> Request \<Rightarrow> bool \<Rightarrow> Response option \<Rightarrow> effect list" where
  "logRequest tag request shouldLog cached =
     (if shouldLog then
        [LogCall (''incoming request ('' @ tag @ ''): url='' @ url request
           @ '', cache_hit='' @ (case cached of None \<Rightarrow> ''false'' | Some c \<Rightarrow> ''true'')
           @ '', cache_status=''
           @ (case cached of
                None \<Rightarrow> ''none''
              | Some c \<Rightarrow> if status c = 0 then ''none'' else toString (status c))
           @ '', mode='' @ mode request
           @ '', destination='' @ destination request)]
      else [])"

section \<open>fetchCore: the policy engine\<close>

text \<open>
  \<open>parseInt(s, 10)\<close> on a header value: leading white space is skipped, one sign is read,
  then the longest run of decimal digits; no digit gives \<open>NaN\<close> (\<^const>\<open>None\<close>). Whatever
  follows the digits is ignored. The white space of a byte string is TAB, LF, VT, FF, CR,
  SP and NBSP. The result is compared with 1, 2 and 4 only, which the rounding of a long
  digit string to a double cannot produce or destroy, so the exact integer is kept.
\<close>

definition isStrWhiteSpaceChar :: "char \<Rightarrow> bool" where
  "isStrWhiteSpaceChar c =
     (c \<in> set [CHR 0x09, CHR 0x0A, CHR 0x0B, CHR 0x0C, CHR 0x0D, CHR 0x20, CHR 0xA0])"

definition isDigit :: "char \<Rightarrow> bool" where
  "isDigit c = (48 \<le> (of_char c :: nat) \<and> (of_char c :: nat) \<le> 57)"

definition digitsValue :: "string \<Rightarrow> nat" where
  "digitsValue ds = foldl (\<lambda>acc c. 10 * acc + (of_char c - 48)) 0 ds"

definition parseInt10 :: "string \<Rightarrow> int option" where
  "parseInt10 s =
     (let S = dropWhile isStrWhiteSpaceChar s;
          neg = (case S of [] \<Rightarrow> False | c # r \<Rightarrow> c = CHR ''-'');
          S1 = (case S of [] \<Rightarrow> [] | c # r \<Rightarrow> if c = CHR ''+'' \<or> c = CHR ''-'' then r else S);
          Z = takeWhile isDigit S1
      in if Z = [] then None
         else Some (if neg then - int (digitsValue Z) else int (digitsValue Z)))"

definition CACHE_FIRST :: string where
  "CACHE_FIRST = toString (nat CACHE_FIRST_POLICY)"

definition cachefirstTag :: string where "cachefirstTag = ''cache-first''"
definition cacheonlyTag :: string where "cacheonlyTag = ''cache-only''"
definition networkfirstTag :: string where "networkfirstTag = ''network-first''"

fun safeRequest :: "Response settled \<Rightarrow> Response settled" where
  "safeRequest (Resolved r) = Resolved r"
| "safeRequest (Rejected err) = Resolved (errorResponse err)"

text \<open>
  \<open>request.headers.get(policyHeader) || CACHE_FIRST\<close>: \<open>null\<close> and the empty string are falsy.
\<close>

definition policyString :: "Request \<Rightarrow> string" where
  "policyString request =
     (case headers_get (headers request) serviceWorkerPolicyHeader of
        None \<Rightarrow> CACHE_FIRST
      | Some v \<Rightarrow> if v = [] then CACHE_FIRST else v)"

text \<open>
  \<open>fetchCore\<close> returns the calls it made and how its promise settles. A rejection of the
  cache resolver is not caught anywhere in the source and rejects the whole call, and so
  does a \<open>cacheHit\<close> that throws: none of its three calls stands in a \<open>try\<close> (the one of
  NetworkFirst stands in the \<open>catch\<close> block).
\<close>

definition fetchCore ::
  "Request \<Rightarrow> network \<Rightarrow> file_getter \<Rightarrow> string \<Rightarrow> bool \<Rightarrow> effect list \<times> Response settled" where
  "fetchCore request networkFetch getFile targetClientId shouldLog =
     (let policy = parseInt10 (policyString request) in
      if policy = Some NETWORK_ONLY_POLICY then
        (logRequest networkfirstTag request shouldLog None @ [NetworkCall (InRequest request)],
         safeRequest (networkFetch (InRequest request)))
      else if policy = Some NETWORK_FIRST_POLICY then
        (case networkFetch (InRequest request) of
           Resolved res \<Rightarrow>
             ([NetworkCall (InRequest request)]
                @ logRequest networkfirstTag request shouldLog None,
              Resolved res)
         | Rejected err \<Rightarrow>
             (case getFile (url request) targetClientId of
                Rejected err2 \<Rightarrow>
                  ([NetworkCall (InRequest request), CacheCall (url request) targetClientId],
                   Rejected err2)
              | Resolved cached \<Rightarrow>
                  ([NetworkCall (InRequest request), CacheCall (url request) targetClientId]
                     @ logRequest networkfirstTag request shouldLog cached,
                   (case cached of
                      None \<Rightarrow> Resolved (errorResponse err)
                    | Some c \<Rightarrow>
                        if ok c then returned (cacheHit c)
                        else Resolved (errorResponse err)))))
      else if policy = Some CACHE_ONLY_POLICY then
        (case getFile (url request) targetClientId of
           Rejected err2 \<Rightarrow> ([CacheCall (url request) targetClientId], Rejected err2)
         | Resolved cached \<Rightarrow>
             ([CacheCall (url request) targetClientId]
                @ logRequest cacheonlyTag request shouldLog cached,
              (case cached of
                 None \<Rightarrow> Resolved NOT_FOUND_RESPONSE
               | Some c \<Rightarrow> returned (cacheHit c))))
      else
        (case getFile (url request) targetClientId of
           Rejected err2 \<Rightarrow> ([CacheCall (url request) targetClientId], Rejected err2)
         | Resolved cached \<Rightarrow>
             (let fallback =
                    ([CacheCall (url request) targetClientId]
                       @ logRequest cachefirstTag request shouldLog cached
                       @ [NetworkCall (InRequest request)],
                     safeRequest (networkFetch (InRequest request)))
              in case cached of
                   None \<Rightarrow> fallback
                 | Some c \<Rightarrow>
                     if ok c then
                       ([CacheCall (url request) targetClientId]
                          @ logRequest cachefirstTag request shouldLog cached,
                        returned (cacheHit c))
                     else fallback)))"

section \<open>fetchHandler: the origin router\<close>

subsection \<open>String and URL operations of the platform\<close>

definition startsWith :: "string \<Rightarrow> string \<Rightarrow> bool" where
  "startsWith s p = prefix p s"

text \<open>\<open>s.split(c)\<close> for a one-character separator: always at least one piece.\<close>

fun js_split :: "string \<Rightarrow> char \<Rightarrow> string list" where
  "js_split [] sep = [[]]"
| "js_split (c # cs) sep =
     (if c = sep then [] # js_split cs sep
      else (case js_split cs sep of [] \<Rightarrow> [[c]] | x # xs \<Rightarrow> (c # x) # xs))"

text \<open>
  \<open>s.trim()\<close>, for the white space that one byte encodes (TAB, LF, VT, FF, CR, SP). The
  template starts with a line feed before \<open><\<close> and ends with \<open>>\<close>, so no other white
  space can stand at either end of the text it is applied to.
\<close>

definition isTrimChar :: "char \<Rightarrow> bool" where
  "isTrimChar c = (c \<in> set [CHR 0x09, CHR 0x0A, CHR 0x0B, CHR 0x0C, CHR 0x0D, CHR 0x20])"

definition js_trim :: "string \<Rightarrow> string" where
  "js_trim s = rev (dropWhile isTrimChar (rev (dropWhile isTrimChar s)))"

definition isHexDigit :: "char \<Rightarrow> bool" where
  "isHexDigit c =
     (let n = (of_char c :: nat)
      in (48 \<le> n \<and> n \<le> 57) \<or> (65 \<le> n \<and> n \<le> 70) \<or> (97 \<le> n \<and> n \<le> 102))"

definition hexValue :: "char \<Rightarrow> nat" where
  "hexValue c =
     (let n = (of_char c :: nat)
      in if n \<le> 57 then n - 48 else if n \<le> 70 then n - 55 else n - 87)"

text \<open>
  Percent-decoding of the URL standard: an escape that is not a percent sign followed by
  two hexadecimal digits stays as it is.
\<close>

fun percent_decode :: "string \<Rightarrow> string" where
  "percent_decode [] = []"
| "percent_decode (c # cs) =
     (if c = CHR ''%'' then
        (case cs of
           h1 # h2 # rest \<Rightarrow>
             if isHexDigit h1 \<and> isHexDigit h2
             then char_of (16 * hexValue h1 + hexValue h2) # percent_decode rest
             else c # percent_decode cs
         | _ \<Rightarrow> c # percent_decode cs)
      else c # percent_decode cs)"

text \<open>
  UTF-8 decoding without BOM handling, as the Encoding standard runs it: a well-formed
  sequence is kept, every ill-formed part becomes U+FFFD, and the byte that broke a
  sequence is read again. \<open>seen\<close> holds the bytes of the sequence in progress, \<open>needed\<close>
  how many are still to come, \<open>lower\<close> and \<open>upper\<close> the range of the next one.
\<close>

definition REPLACEMENT :: string where
  "REPLACEMENT = [CHR 0xEF, CHR 0xBF, CHR 0xBD]"

function utf8_decode_from :: "string \<Rightarrow> nat \<Rightarrow> nat \<Rightarrow> nat \<Rightarrow> string \<Rightarrow> string" where
  "utf8_decode_from seen needed lower upper [] = (if needed = 0 then [] else REPLACEMENT)"
| "utf8_decode_from seen needed lower upper (b # bs) =
     (let n = (of_char b :: nat) in
      if needed = 0 then
        (if n \<le> 0x7F then b # utf8_decode_from [] 0 0x80 0xBF bs
         else if 0xC2 \<le> n \<and> n \<le> 0xDF then utf8_decode_from [b] 1 0x80 0xBF bs
         else if 0xE0 \<le> n \<and> n \<le> 0xEF then
           utf8_decode_from [b] 2 (if n = 0xE0 then 0xA0 else 0x80)
             (if n = 0xED then 0x9F else 0xBF) bs
         else if 0xF0 \<le> n \<and> n \<le> 0xF4 then
           utf8_decode_from [b] 3 (if n = 0xF0 then 0x90 else 0x80)
             (if n = 0xF4 then 0x8F else 0xBF) bs
         else REPLACEMENT @ utf8_decode_from [] 0 0x80 0xBF bs)
      else if n < lower \<or> upper < n then
        REPLACEMENT @ utf8_decode_from [] 0 0x80 0xBF (b # bs)
      else if needed = 1 then seen @ [b] @ utf8_decode_from [] 0 0x80 0xBF bs
      else utf8_decode_from (seen @ [b]) (needed - 1) 0x80 0xBF bs)"
  by pat_completeness auto
termination
  by (relation "measure (\<lambda>(seen, needed, lower, upper, bs).
        2 * length bs + (if needed = 0 then 0 else 1))") auto

definition utf8_decode :: "string \<Rightarrow> string" where
  "utf8_decode bs = utf8_decode_from [] 0 0x80 0xBF bs"

text \<open>
  \<open>new URLSearchParams(init)\<close>: one leading question mark is dropped, the rest is cut at
  \<open>&\<close>, empty pieces are skipped, each piece is cut at its first \<open>=\<close>, and in name and
  value \<open>+\<close> becomes a space before percent-decoding and UTF-8 decoding.
\<close>

definition form_decode :: "string \<Rightarrow> string" where
  "form_decode s =
     utf8_decode (percent_decode (map (\<lambda>c. if c = CHR ''+'' then CHR '' '' else c) s))"

definition URLSearchParams :: "string \<Rightarrow> (string \<times> string) list" where
  "URLSearchParams init =
     (let input = (case init of [] \<Rightarrow> [] | c # rest \<Rightarrow> if c = CHR ''?'' then rest else init)
      in map (\<lambda>bytes.
                (form_decode (takeWhile (\<lambda>c. c \<noteq> CHR ''='') bytes),
                 form_decode (drop 1 (dropWhile (\<lambda>c. c \<noteq> CHR ''='') bytes))))
           (filter (\<lambda>bytes. bytes \<noteq> []) (js_split input CHR ''&'')))"

definition params_has :: "(string \<times> string) list \<Rightarrow> string \<Rightarrow> bool" where
  "params_has ps name = (map_of ps name \<noteq> None)"

definition params_get :: "(string \<times> string) list \<Rightarrow> string \<Rightarrow> string option" where
  "params_get ps name = map_of ps name"

text \<open>
  \<open>decodeURIComponent\<close>. Outside an escape a character is copied. An escape must be a
  percent sign and two hexadecimal digits; a byte below 0x80 is that character; a lead
  byte announces two to four bytes, each of them an escape of its own, which together
  must be well-formed UTF-8. Anything else throws URIError, here \<^const>\<open>None\<close>. \<open>need\<close>
  counts the escapes still owed to the sequence in \<open>octets\<close>.
\<close>

definition leadingOnes :: "nat \<Rightarrow> nat" where
  "leadingOnes B =
     (if B < 0x80 then 0 else if B < 0xC0 then 1 else if B < 0xE0 then 2
      else if B < 0xF0 then 3 else if B < 0xF8 then 4 else 5)"

fun valid_utf8 :: "nat list \<Rightarrow> bool" where
  "valid_utf8 [a, b] = (0xC2 \<le> a \<and> a \<le> 0xDF \<and> 0x80 \<le> b \<and> b \<le> 0xBF)"
| "valid_utf8 [a, b, c] =
     (0xE0 \<le> a \<and> a \<le> 0xEF
      \<and> (if a = 0xE0 then 0xA0 else 0x80) \<le> b \<and> b \<le> (if a = 0xED then 0x9F else 0xBF)
      \<and> 0x80 \<le> c \<and> c \<le> 0xBF)"
| "valid_utf8 [a, b, c, d] =
     (0xF0 \<le> a \<and> a \<le> 0xF4
      \<and> (if a = 0xF0 then 0x90 else 0x80) \<le> b \<and> b \<le> (if a = 0xF4 then 0x8F else 0xBF)
      \<and> 0x80 \<le> c \<and> c \<le> 0xBF \<and> 0x80 \<le> d \<and> d \<le> 0xBF)"
| "valid_utf8 octets = False"

fun decodeURI_from :: "nat \<Rightarrow> nat list \<Rightarrow> string \<Rightarrow> string option" where
  "decodeURI_from need octets [] = (if need = 0 then Some [] else None)"
| "decodeURI_from need octets (c # cs) =
     (if c = CHR ''%'' then
        (case cs of
           h1 # h2 # rest \<Rightarrow>
             if isHexDigit h1 \<and> isHexDigit h2 then
               (let B = 16 * hexValue h1 + hexValue h2 in
                if need = 0 then
                  (if B < 0x80 then
                     map_option (\<lambda>r. char_of B # r) (decodeURI_from 0 [] rest)
                   else if leadingOnes B = 1 \<or> 4 < leadingOnes B then None
                   else decodeURI_from (leadingOnes B - 1) [B] rest)
                else if need = 1 then
                  (if valid_utf8 (octets @ [B]) then
                     map_option (\<lambda>r. map char_of (octets @ [B]) @ r)
                       (decodeURI_from 0 [] rest)
                   else None)
                else decodeURI_from (need - 1) (octets @ [B]) rest)
             else None
         | _ \<Rightarrow> None)
      else if need = 0 then map_option (\<lambda>r. c # r) (decodeURI_from 0 [] cs)
      else None)"

definition decodeURIComponent :: "string \<Rightarrow> js_value + string" where
  "decodeURIComponent s =
     (case decodeURI_from 0 [] s of
        None \<Rightarrow> Inl (JsError ''URIError'' ''URI malformed'')
      | Some r \<Rightarrow> Inr r)"

subsection \<open>The template\<close>

definition join_lines :: "string list \<Rightarrow> string" where
  "join_lines ls = concat (map (\<lambda>l. l @ [CHR 0x0A]) (butlast ls)) @ last ls"

text \<open>The template literal of \<open>generateTemplate\<close>, line by line, then \<open>.trim()\<close>.\<close>

definition generateTemplate :: "string \<Rightarrow> string \<Rightarrow> string" where
  \<open>generateTemplate importSource securityPolicy =
     js_trim (join_lines
       [[],
        ''<!DOCTYPE html>'',
        ''<html lang="en">'',
        ''<head>'',
        ''    <meta charset="UTF-8">'',
        ''    <meta http-equiv="X-UA-Compatible" content="IE=edge">'',
        ''    <meta name="viewport" content="width=device-width, initial-scale=1.0">'',
        ''    <title>Sandbox</title>'',
        ''    <meta http-equiv="Content-Security-Policy" content="'' @ securityPolicy @ ''"/>'',
        ''</head>'',
        ''<body>'',
        ''    <script entry="'' @ importSource
           @ ''" id="root-script" src="./secure.compiled.js" type="module" defer> </script>'',
        ''</body>'',
        ''</html>''])\<close>

subsection \<open>The handler\<close>

text \<open>
  An object literal with string values, as the list of its properties in the order they
  were first written. Writing a key that exists replaces its value in place; this is what
  the spread \<open>{a: .., b: .., ...extra}\<close> does with every property of \<open>extra\<close>. (Keys that
  look like array indices are enumerated first by the language; two such keys never name
  the same header, so no header lookup can tell.)
\<close>

fun obj_set :: "header_list \<Rightarrow> string \<Rightarrow> string \<Rightarrow> header_list" where
  "obj_set [] k v = [(k, v)]"
| "obj_set (p # ps) k v = (if fst p = k then (k, v) # ps else p # obj_set ps k v)"

definition obj_spread :: "header_list \<Rightarrow> header_list \<Rightarrow> header_list" where
  "obj_spread base extra = foldl (\<lambda>obj p. obj_set obj (fst p) (snd p)) base extra"

text \<open>
  The modules \<open>index-html.inlined.json\<close>, \<open>secure-compiled-mjs.inlined.json\<close> and
  \<open>inlinedMeta\<close> are written by the build (\<open>dev/inlineCoreFiles.mjs\<close>); their contents are
  parameters of the handler.
\<close>

record Inlined =
  IndexHtml :: string
  SecureMjs :: string
  INDEX_HTML_LENGTH :: nat
  SECURE_MJS_LENGTH :: nat

text \<open>
  \<open>RUN_PROGRAM_PATHNAME\<close> comes from the module \<open>config\<close>, which is not among the sources;
  the value is the one the handler's tests request (\<open>${origin}/runProgram\<close>).
\<close>

definition RUN_PROGRAM_PATHNAME :: string where
  "RUN_PROGRAM_PATHNAME = ''/runProgram''"

record FetchHandlerEvent =
  request :: Request
  clientId :: string
  resultingClientId :: string

text \<open>
  \<open>FetchHandlerOptions\<close>. \<open>getClientFile\<close> is the one member of \<open>fileCache\<close>, \<open>config_log\<close> is
  \<open>config.log\<close>, and the \<open>log\<close> function is what \<^const>\<open>LogCall\<close> records.
\<close>

record FetchHandlerOptions =
  origin :: string
  getClientFile :: file_getter
  networkFetch :: network
  inMemoryDocumentHeaders :: "header_list option"
  config_log :: bool

text \<open>The default of the destructuring: \<open>inMemoryDocumentHeaders = {}\<close>.\<close>

definition configuredHeaders :: "FetchHandlerOptions \<Rightarrow> header_list" where
  "configuredHeaders options =
     (case inMemoryDocumentHeaders options of None \<Rightarrow> [] | Some h \<Rightarrow> h)"

definition createFetchHandler ::
  "Inlined \<Rightarrow> FetchHandlerOptions \<Rightarrow> FetchHandlerEvent \<Rightarrow> effect list \<times> Response settled" where
  "createFetchHandler inlined options event =
     (let extraHeaders = configuredHeaders options;
          rootDoc = origin options @ ''/'';
          templateEndpoint = origin options @ RUN_PROGRAM_PATHNAME;
          entryScript = origin options @ ''/secure.compiled.js'';
          testScript = origin options @ ''/test.mjs'';
          req = request event
      in
      if startsWith (url req) (origin options) then
        if url req = rootDoc then
          (case networkFetch options (InRequest req) of
             Resolved res \<Rightarrow> ([NetworkCall (InRequest req)], Resolved res)
           | Rejected err \<Rightarrow>
               ([NetworkCall (InRequest req)],
                returned (cacheHit (new_Response (IndexHtml inlined) 200 ''OK''
                  (obj_spread
                     [(''content-type'', ''text/html''),
                      (''content-length'', toString (INDEX_HTML_LENGTH inlined))]
                     extraHeaders)))))
        else if startsWith (url req) templateEndpoint then
          (let query = js_split (url req) CHR ''?'' in
           if length query < 2 then
             ([], Resolved (errorResponse (JsString ''template endpoint must have query'')))
           else
             (let params = URLSearchParams (''?'' @ query ! 1) in
              if \<not> params_has params ''csp'' \<or> \<not> params_has params ''entry'' then
                ([], Resolved (errorResponse
                   (JsString ''template endpoint have both an 'csp' and 'entry' query'')))
              else
                (case decodeURIComponent
                        (case params_get params ''csp'' of None \<Rightarrow> [] | Some v \<Rightarrow> v) of
                   Inl thrown \<Rightarrow> ([], Rejected thrown)
                 | Inr securityPolicy \<Rightarrow>
                     (case decodeURIComponent
                             (case params_get params ''entry'' of None \<Rightarrow> [] | Some v \<Rightarrow> v) of
                        Inl thrown \<Rightarrow> ([], Rejected thrown)
                      | Inr importSource \<Rightarrow>
                          (let templateText = generateTemplate importSource securityPolicy in
                           ([], Resolved (new_Response templateText 200 ''OK''
                             (obj_spread
                                [(''content-type'', ''text/html''),
                                 (''content-length'', toString (length templateText))]
                                extraHeaders))))))))
        else if startsWith (url req) entryScript then
          (case networkFetch options (InUrl entryScript) of
             Resolved res \<Rightarrow> ([NetworkCall (InUrl entryScript)], Resolved res)
           | Rejected err \<Rightarrow>
               ([NetworkCall (InUrl entryScript)],
                returned (cacheHit (new_Response (SecureMjs inlined) 200 ''OK''
                  (obj_spread
                     [(''content-type'', ''text/javascript''),
                      (''content-length'', toString (SECURE_MJS_LENGTH inlined))]
                     extraHeaders)))))
        else if startsWith (url req) testScript then
          ([NetworkCall (InRequest req)], networkFetch options (InRequest req))
        else ([], Resolved NOT_FOUND_RESPONSE)
      else
        fetchCore req (networkFetch options) (getClientFile options)
          (if clientId event \<noteq> [] then clientId event else resultingClientId event)
          (config_log options))"

section \<open>The strategy the specification calls CacheFirst\<close>

text \<open>
  Written from the specification's table, for comparison with the default branch of
  \<^const>\<open>fetchCore\<close>: the cache is attempted first; an entry that exists and is 2xx is
  returned as a cache hit; otherwise the network is attempted and its response returned
  verbatim, or an error response if it throws. One line is logged with the tag
  "cache-first". \<open>entry\<close> is what the cache resolver answered.
\<close>

definition CacheFirst_strategy ::
  "Request \<Rightarrow> network \<Rightarrow> Response option \<Rightarrow> string \<Rightarrow> bool \<Rightarrow> effect list \<times> Response settled" where
  "CacheFirst_strategy req net entry client loggingEnabled =
     (let consulted = [CacheCall (url req) client]
                        @ logRequest ''cache-first'' req loggingEnabled entry;
          viaNetwork =
            (consulted @ [NetworkCall (InRequest req)],
             case net (InRequest req) of
               Resolved res \<Rightarrow> Resolved res
             | Rejected cause \<Rightarrow> Resolved (errorResponse cause))
      in case entry of
           None \<Rightarrow> viaNetwork
         | Some e \<Rightarrow> if ok e then (consulted, returned (cacheHit e)) else viaNetwork)"

text \<open>
  What the handler parses on the template route: the piece of the URL between its first
  and its second question mark (no parameters when the URL has no question mark).
\<close>

definition templateParams :: "string \<Rightarrow> (string \<times> string) list" where
  "templateParams u =
     (case js_split u CHR ''?'' of
        first # query # rest \<Rightarrow> URLSearchParams (''?'' @ query)
      | _ \<Rightarrow> [])"

text \<open>
  The fixed text of the template around the two interpolated values: before the
  Content-Security-Policy tag, between that tag and the script tag, and after the script
  tag's \<open>id\<close> attribute.
\<close>

definition template_before :: string where
  \<open>template_before = join_lines
     [''<!DOCTYPE html>'',
      ''<html lang="en">'',
      ''<head>'',
      ''    <meta charset="UTF-8">'',
      ''    <meta http-equiv="X-UA-Compatible" content="IE=edge">'',
      ''    <meta name="viewport" content="width=device-width, initial-scale=1.0">'',
      ''    <title>Sandbox</title>'',
      ''    '']\<close>

definition template_between :: string where
  \<open>template_between = join_lines ['''', ''</head>'', ''<body>'', ''    '']\<close>

definition template_after :: string where
  \<open>template_after = join_lines
     ['' src="./secure.compiled.js" type="module" defer> </script>'', ''</body>'', ''</html>'']\<close>

section \<open>Concrete requests and collaborators\<close>

definition ex_request :: "string \<Rightarrow> header_list \<Rightarrow> Request" where
  "ex_request u hs = \<lparr>url = u, headers = hs, mode = ''cors'', destination = ''script''\<rparr>"

definition ex_response :: "nat \<Rightarrow> string \<Rightarrow> Response" where
  "ex_response st b =
     \<lparr>status = st, statusText = [], res_headers = [], headers_guard = GuardResponse,
      body = b\<rparr>"

definition net_up :: "nat \<Rightarrow> network" where
  "net_up st i = Resolved (ex_response st ''from network'')"

definition net_down :: network where
  "net_down i = Rejected (JsError ''TypeError'' ''Failed to fetch'')"

definition cache_with :: "nat \<Rightarrow> file_getter" where
  "cache_with st u c = Resolved (Some (ex_response st ''from cache''))"

definition cache_empty :: file_getter where
  "cache_empty u c = Resolved None"

definition req_policy :: "string \<Rightarrow> Request" where
  "req_policy v = ex_request ''https://pizza.com/a.js'' [(''Sw-Policy'', v)]"

definition req_plain :: Request where
  "req_plain = ex_request ''https://pizza.com/a.js'' []"

definition ex_inlined :: Inlined where
  "ex_inlined =
     \<lparr>IndexHtml = ''<html></html>'', SecureMjs = ''console.log(0)'',
      INDEX_HTML_LENGTH = 13, SECURE_MJS_LENGTH = 14\<rparr>"

definition ex_options :: "network \<Rightarrow> FetchHandlerOptions" where
  "ex_options net =
     \<lparr>origin = ''https://donuts.com'', getClientFile = cache_with 200, networkFetch = net,
      inMemoryDocumentHeaders = Some [(''cool-header'', ''3'')], config_log = False\<rparr>"

definition ex_event :: "string \<Rightarrow> FetchHandlerEvent" where
  "ex_event u = \<lparr>request = ex_request u [], clientId = [], resultingClientId = []\<rparr>"

definition ex_event_other :: FetchHandlerEvent where
  "ex_event_other =
     \<lparr>request = \<lparr>url = ''https://donuts.com/secure.compiled.js/x?q=true'',
                   headers = [(''Sw-Policy'', ''4'')], mode = ''no-cors'',
                   destination = ''document''\<rparr>,
      clientId = ''client-7'', resultingClientId = []\<rparr>"

text \<open>A cached entry whose headers are immutable, and a resolver that answers it.\<close>

definition ex_frozen :: "nat \<Rightarrow> Response" where
  "ex_frozen st = (ex_response st ''from cache'')\<lparr>headers_guard := GuardImmutable\<rparr>"

definition cache_frozen :: "nat \<Rightarrow> file_getter" where
  "cache_frozen st u c = Resolved (Some (ex_frozen st))"


section \<open>Facts about the contracts\<close>

lemma parseInt10_codes:
  "parseInt10 ''1'' = Some 1" "parseInt10 ''2'' = Some 2"
  "parseInt10 ''3'' = Some 3" "parseInt10 ''4'' = Some 4"
  "parseInt10 CACHE_FIRST = Some 3"
  by code_simp+

lemma policyString_header:
  "headers_get (headers req) serviceWorkerPolicyHeader = Some (c # cs) \<Longrightarrow>
     policyString req = c # cs"
  by (simp add: policyString_def)

lemma policyString_absent:
  "headers_get (headers req) serviceWorkerPolicyHeader = None \<Longrightarrow>
     policyString req = CACHE_FIRST"
  by (simp add: policyString_def)

lemmas policy_consts =
  NETWORK_FIRST_POLICY_def NETWORK_ONLY_POLICY_def CACHE_FIRST_POLICY_def CACHE_ONLY_POLICY_def

lemma logRequest_no_calls [simp]:
  "\<not> networkCalled (logRequest tag req lg cached)"
  "\<not> cacheCalled (logRequest tag req lg cached)"
  by (simp_all add: logRequest_def networkCalled_def cacheCalled_def)

lemma called_append [simp]:
  "networkCalled (xs @ ys) = (networkCalled xs \<or> networkCalled ys)"
  "cacheCalled (xs @ ys) = (cacheCalled xs \<or> cacheCalled ys)"
  by (simp_all add: networkCalled_def cacheCalled_def)

lemma called_Cons [simp]:
  "networkCalled (NetworkCall i # xs)"
  "networkCalled (CacheCall u c # xs) = networkCalled xs"
  "cacheCalled (CacheCall u c # xs)"
  "cacheCalled (NetworkCall i # xs) = cacheCalled xs"
  "\<not> networkCalled []" "\<not> cacheCalled []"
  by (simp_all add: networkCalled_def cacheCalled_def)

lemma error_header_names:
  "same_name serviceWorkerErrorCatchHeader serviceWorkerErrorCatchHeader"
  "\<not> same_name serviceWorkerErrorCatchHeader ''content-type''"
  "\<not> same_name ''content-type'' serviceWorkerErrorCatchHeader"
  "\<not> same_name serviceWorkerErrorCatchHeader ''X-Cache-Hit''"
  "\<not> same_name ''content-type'' ''X-Cache-Hit''"
  by code_simp+

lemma errorResponse_headers:
  "res_headers (errorResponse err) =
     [(serviceWorkerErrorCatchHeader, ''1''), (''content-type'', ''text/plain;charset=UTF-8'')]"
  by (simp add: errorResponse_def new_Response_def headers_has_def error_header_names)

lemma errorResponse_shape:
  "status (errorResponse err) = 500"
  "body (errorResponse err) = js_String err"
  "headers_get (res_headers (errorResponse err)) serviceWorkerErrorCatchHeader = Some ''1''"
  "headers_has (res_headers (errorResponse err)) serviceWorkerErrorCatchHeader"
  "\<not> headers_has (res_headers (errorResponse err)) ''X-Cache-Hit''"
  by (simp_all add: errorResponse_headers headers_get_def headers_has_def error_header_names)
     (simp_all add: errorResponse_def new_Response_def)

lemma cache_hit_name_allowed: "\<not> forbiddenResponseHeaderName serviceWorkerCacheHitHeader_key"
  by code_simp

text \<open>What \<open>cacheHit\<close> does, by the guard of the response it is given.\<close>

lemma cacheHit_mutable:
  "headers_guard c = GuardResponse \<Longrightarrow>
     cacheHit c = Inr (c\<lparr>res_headers := res_headers c @ [(''X-Cache-Hit'', ''SW HIT'')]\<rparr>)"
  by (simp add: cacheHit_def headers_append_def cache_hit_name_allowed)
     (simp add: serviceWorkerCacheHitHeader_key_def serviceWorkerCacheHitHeader_value_def)

lemma cacheHit_immutable:
  "headers_guard c = GuardImmutable \<Longrightarrow> cacheHit c = Inl (JsError ''TypeError'' ''immutable'')"
  by (simp add: cacheHit_def headers_append_def)

lemma NOT_FOUND_status: "status NOT_FOUND_RESPONSE = 404"
  by (simp add: NOT_FOUND_RESPONSE_def new_Response_def)

subsection \<open>What parseInt reads\<close>

lemma digit_not_white_or_sign:
  "isDigit c \<Longrightarrow> \<not> isStrWhiteSpaceChar c \<and> c \<noteq> CHR ''+'' \<and> c \<noteq> CHR ''-''"
  by (auto simp: isDigit_def isStrWhiteSpaceChar_def)

lemma sign_not_white:
  "\<not> isStrWhiteSpaceChar CHR ''+''" "\<not> isStrWhiteSpaceChar CHR ''-''"
  by (simp_all add: isStrWhiteSpaceChar_def)

lemma digitsValue_snoc:
  "digitsValue [] = 0"
  "digitsValue (ds @ [d]) = 10 * digitsValue ds + (of_char d - 48)"
  by (simp_all add: digitsValue_def)

lemma takeWhile_digits:
  assumes "\<forall>c \<in> set ds. isDigit c"
      and "case rest of [] \<Rightarrow> True | c # r \<Rightarrow> \<not> isDigit c"
  shows "takeWhile isDigit (ds @ rest) = ds"
  using assms by (cases rest) (simp_all add: takeWhile_append2)

text \<open>
  What \<open>parseInt(s, 10)\<close> reads from a string cut into white space, an optional sign, a run
  of digits and a rest that does not continue the run.
\<close>

lemma parseInt10_shape:
  assumes ws: "\<forall>c \<in> set ws. isStrWhiteSpaceChar c"
      and sgf: "sg \<in> {[], ''+'', ''-''}"
      and ds: "\<forall>c \<in> set ds. isDigit c"
      and rest: "case rest of [] \<Rightarrow> True
                 | c # r \<Rightarrow> \<not> isDigit c
                     \<and> (ds = [] \<and> sg = [] \<longrightarrow>
                          \<not> isStrWhiteSpaceChar c \<and> c \<noteq> CHR ''+'' \<and> c \<noteq> CHR ''-'')"
  shows "parseInt10 (ws @ sg @ ds @ rest) =
           (if ds = [] then None
            else Some (if sg = ''-'' then - int (digitsValue ds) else int (digitsValue ds)))"
proof -
  have r': "case rest of [] \<Rightarrow> True | c # r \<Rightarrow> \<not> isDigit c"
    using rest by (cases rest) simp_all
  have tw: "takeWhile isDigit (ds @ rest) = ds"
    using ds r' by (rule takeWhile_digits)
  have skip: "parseInt10 (ws @ sg @ ds @ rest) = parseInt10 (sg @ ds @ rest)"
    using ws by (simp add: parseInt10_def dropWhile_append2)
  consider (plus) "sg = ''+''" | (minus) "sg = ''-''" | (none) "sg = []"
    using sgf by auto
  then have "parseInt10 (sg @ ds @ rest) =
           (if ds = [] then None
            else Some (if sg = ''-'' then - int (digitsValue ds) else int (digitsValue ds)))"
  proof cases
    case plus
    then show ?thesis
      by (simp add: parseInt10_def sign_not_white tw Let_def)
  next
    case minus
    then show ?thesis
      by (simp add: parseInt10_def sign_not_white tw Let_def)
  next
    case none
    show ?thesis
    proof (cases ds)
      case (Cons d ds')
      then have d: "isDigit d" using ds by simp
      have tw': "takeWhile isDigit (d # ds' @ rest) = d # ds'"
        using tw Cons by simp
      show ?thesis
        using digit_not_white_or_sign [OF d] Cons tw' none
        by (simp add: parseInt10_def Let_def del: takeWhile.simps)
    next
      case Nil
      show ?thesis
      proof (cases rest)
        case Nil' : Nil
        then show ?thesis using Nil none by (simp add: parseInt10_def Let_def)
      next
        case (Cons c r)
        then have c: "\<not> isDigit c" "\<not> isStrWhiteSpaceChar c" "c \<noteq> CHR ''+''" "c \<noteq> CHR ''-''"
          using rest Nil none by simp_all
        then show ?thesis
          using Nil none Cons by (simp add: parseInt10_def Let_def)
      qed
    qed
  qed
  then show ?thesis by (simp only: skip)
qed

text \<open>Every string can be cut that way.\<close>

lemma parseInt10_cut_exists:
  "\<exists>ws sg ds rest. v = ws @ sg @ ds @ rest
     \<and> (\<forall>c \<in> set ws. isStrWhiteSpaceChar c) \<and> sg \<in> {[], ''+'', ''-''}
     \<and> (\<forall>c \<in> set ds. isDigit c)
     \<and> (case rest of [] \<Rightarrow> True
         | c # r \<Rightarrow> \<not> isDigit c
             \<and> (ds = [] \<and> sg = [] \<longrightarrow>
                  \<not> isStrWhiteSpaceChar c \<and> c \<noteq> CHR ''+'' \<and> c \<noteq> CHR ''-''))"
proof -
  define ws where "ws = takeWhile isStrWhiteSpaceChar v"
  define S where "S = dropWhile isStrWhiteSpaceChar v"
  define sg where "sg = (case S of [] \<Rightarrow> [] | c # r \<Rightarrow> if c = CHR ''+'' \<or> c = CHR ''-'' then [c] else [])"
  define S1 where "S1 = (case S of [] \<Rightarrow> [] | c # r \<Rightarrow> if c = CHR ''+'' \<or> c = CHR ''-'' then r else S)"
  define ds where "ds = takeWhile isDigit S1"
  define rest where "rest = dropWhile isDigit S1"
  have v: "v = ws @ S" by (simp add: ws_def S_def)
  have s: "S = sg @ S1" by (auto simp: sg_def S1_def split: list.splits)
  have s1: "S1 = ds @ rest" by (simp add: ds_def rest_def)
  have w: "\<forall>c \<in> set ws. isStrWhiteSpaceChar c"
    by (auto simp: ws_def dest: set_takeWhileD)
  have g: "sg \<in> {[], ''+'', ''-''}" by (auto simp: sg_def split: list.splits)
  have d: "\<forall>c \<in> set ds. isDigit c" by (auto simp: ds_def dest: set_takeWhileD)
  have hdS: "S \<noteq> [] \<Longrightarrow> \<not> isStrWhiteSpaceChar (hd S)"
    unfolding S_def by (rule hd_dropWhile)
  have hdR: "rest \<noteq> [] \<Longrightarrow> \<not> isDigit (hd rest)"
    unfolding rest_def by (rule hd_dropWhile)
  have r: "case rest of [] \<Rightarrow> True
         | c # r \<Rightarrow> \<not> isDigit c
             \<and> (ds = [] \<and> sg = [] \<longrightarrow>
                  \<not> isStrWhiteSpaceChar c \<and> c \<noteq> CHR ''+'' \<and> c \<noteq> CHR ''-'')"
  proof (cases rest)
    case Nil
    then show ?thesis by simp
  next
    case (Cons c r)
    have nd: "\<not> isDigit c" using hdR Cons by simp
    have "\<not> isStrWhiteSpaceChar c \<and> c \<noteq> CHR ''+'' \<and> c \<noteq> CHR ''-''" if "ds = []" "sg = []"
    proof -
      have "S = c # r" using s s1 that Cons by simp
      moreover from this have "\<not> isStrWhiteSpaceChar c" using hdS by simp
      ultimately show ?thesis using that(2) by (auto simp: sg_def)
    qed
    then show ?thesis using Cons nd by simp
  qed
  show ?thesis
    using v s s1 w g d r by (intro exI [of _ ws] exI [of _ sg] exI [of _ ds] exI [of _ rest]) simp
qed

section \<open>The four policies\<close>

text \<open>
  C1. As stated (after a network rejection, every cached entry of status 2xx comes back
  as \<open>cacheHit(entry)\<close>) the claim fails for an entry whose headers are immutable:
  \<open>cacheHit\<close> appends in place, the append throws, and \<^const>\<open>fetchCore\<close> rejects.
\<close>

theorem networkFirst_policy_counterexample:
  "headers_get (headers (req_policy ''1'')) serviceWorkerPolicyHeader = Some ''1''
   \<and> net_down (InRequest (req_policy ''1''))
       = Rejected (JsError ''TypeError'' ''Failed to fetch'')
   \<and> cache_frozen 200 (url (req_policy ''1'')) ''c'' = Resolved (Some (ex_frozen 200))
   \<and> ok (ex_frozen 200)
   \<and> fetchCore (req_policy ''1'') net_down (cache_frozen 200) ''c'' False
       = ([NetworkCall (InRequest (req_policy ''1'')), CacheCall ''https://pizza.com/a.js'' ''c''],
          Rejected (JsError ''TypeError'' ''immutable''))"
  by code_simp

text \<open>
  C1, amended. NetworkFirst. For a request whose policy header is "1": when the network
  resolves, its response is the result, whatever its status, and the cache resolver is
  not called. When the network rejects, the cache resolver is called next; with its
  answer \<open>cached\<close>, an entry of status 2xx whose headers accept an append is the result
  with X-Cache-Hit: SW HIT appended to its headers, and a miss or an entry of any other
  status gives the error response of the network's cause: status 500 with Sw-Net-Err and
  without X-Cache-Hit.
\<close>

theorem networkFirst_policy:
  assumes hdr: "headers_get (headers req) serviceWorkerPolicyHeader = Some ''1''"
  shows "(\<forall>res. net (InRequest req) = Resolved res \<longrightarrow>
            fetchCore req net getF cid lg
              = ([NetworkCall (InRequest req)] @ logRequest networkfirstTag req lg None,
                 Resolved res)
          \<and> \<not> cacheCalled (fst (fetchCore req net getF cid lg)))
       \<and> (\<forall>err cached. net (InRequest req) = Rejected err
              \<and> getF (url req) cid = Resolved cached \<longrightarrow>
            fst (fetchCore req net getF cid lg)
              = [NetworkCall (InRequest req), CacheCall (url req) cid]
                  @ logRequest networkfirstTag req lg cached
          \<and> (\<forall>c. cached = Some c \<and> ok c \<and> headers_guard c = GuardResponse \<longrightarrow>
                snd (fetchCore req net getF cid lg)
                  = Resolved (c\<lparr>res_headers :=
                                  res_headers c @ [(''X-Cache-Hit'', ''SW HIT'')]\<rparr>))
          \<and> (cached = None \<or> (\<exists>c. cached = Some c \<and> \<not> ok c) \<longrightarrow>
                snd (fetchCore req net getF cid lg) = Resolved (errorResponse err)
              \<and> status (errorResponse err) = 500
              \<and> headers_get (res_headers (errorResponse err)) serviceWorkerErrorCatchHeader
                   = Some ''1''
              \<and> \<not> headers_has (res_headers (errorResponse err)) ''X-Cache-Hit''))"
proof -
  have p: "parseInt10 (policyString req) = Some 1"
    using policyString_header [OF hdr] by (simp add: parseInt10_codes)
  show ?thesis
    by (auto simp: fetchCore_def p policy_consts errorResponse_shape cacheHit_mutable)
qed

theorem networkFirst_policy_witness:
  "snd (fetchCore (req_policy ''1'') net_down (cache_with 200) ''c'' False)
     = Resolved ((ex_response 200 ''from cache'')\<lparr>res_headers := [(''X-Cache-Hit'', ''SW HIT'')]\<rparr>)
   \<and> snd (fetchCore (req_policy ''1'') net_down (cache_with 403) ''c'' False)
     = Resolved (errorResponse (JsError ''TypeError'' ''Failed to fetch''))
   \<and> snd (fetchCore (req_policy ''1'') (net_up 403) (cache_with 200) ''c'' False)
     = Resolved (ex_response 403 ''from network'')"
proof -
  have h: "headers_get (headers (req_policy ''1'')) serviceWorkerPolicyHeader = Some ''1''"
    by code_simp
  have o: "ok (ex_response 200 ''from cache'')" "\<not> ok (ex_response 403 ''from cache'')"
    "headers_guard (ex_response 200 ''from cache'') = GuardResponse"
    "res_headers (ex_response 200 ''from cache'') = []"
    by (simp_all add: ok_def ex_response_def)
  show ?thesis
    using networkFirst_policy [OF h, of net_down "cache_with 200" "''c''" False]
      networkFirst_policy [OF h, of net_down "cache_with 403" "''c''" False]
      networkFirst_policy [OF h, of "net_up 403" "cache_with 200" "''c''" False] o
    by (simp add: net_down_def net_up_def cache_with_def)
qed

text \<open>
  C2. As stated (every cached entry of status 2xx comes back as \<open>cacheHit(entry)\<close>) the claim
  fails for an entry whose headers are immutable: the append throws and
  \<^const>\<open>fetchCore\<close> rejects.
\<close>

theorem cacheFirst_policy_counterexample:
  "headers_get (headers req_plain) serviceWorkerPolicyHeader = None
   \<and> cache_frozen 200 (url req_plain) ''c'' = Resolved (Some (ex_frozen 200))
   \<and> ok (ex_frozen 200)
   \<and> fetchCore req_plain (net_up 200) (cache_frozen 200) ''c'' False
       = ([CacheCall ''https://pizza.com/a.js'' ''c''],
          Rejected (JsError ''TypeError'' ''immutable''))"
  by code_simp

text \<open>
  C2, amended. CacheFirst, the default. For a request without a policy header (or with
  the header "3"), the cache resolver is called first; with \<open>cached\<close> its answer: an entry
  of status 2xx whose headers accept an append is the result with X-Cache-Hit: SW HIT
  appended to its headers, and the network is not called; for a miss or an entry of any
  other status the network is called after the cache and, when it resolves, its response
  is the result unchanged; when it rejects, the result is the error response: status 500
  with Sw-Net-Err.
\<close>

theorem cacheFirst_policy:
  assumes hdr: "headers_get (headers req) serviceWorkerPolicyHeader = None
                \<or> headers_get (headers req) serviceWorkerPolicyHeader = Some ''3''"
      and cache: "getF (url req) cid = Resolved cached"
  shows "(\<forall>c. cached = Some c \<and> ok c \<and> headers_guard c = GuardResponse \<longrightarrow>
            fetchCore req net getF cid lg
              = ([CacheCall (url req) cid] @ logRequest cachefirstTag req lg cached,
                 Resolved (c\<lparr>res_headers :=
                                res_headers c @ [(''X-Cache-Hit'', ''SW HIT'')]\<rparr>))
          \<and> \<not> networkCalled (fst (fetchCore req net getF cid lg)))
       \<and> (cached = None \<or> (\<exists>c. cached = Some c \<and> \<not> ok c) \<longrightarrow>
            fst (fetchCore req net getF cid lg)
              = [CacheCall (url req) cid] @ logRequest cachefirstTag req lg cached
                  @ [NetworkCall (InRequest req)]
          \<and> (\<forall>res. net (InRequest req) = Resolved res \<longrightarrow>
                snd (fetchCore req net getF cid lg) = Resolved res)
          \<and> (\<forall>err. net (InRequest req) = Rejected err \<longrightarrow>
                snd (fetchCore req net getF cid lg) = Resolved (errorResponse err)
              \<and> status (errorResponse err) = 500
              \<and> headers_get (res_headers (errorResponse err)) serviceWorkerErrorCatchHeader
                   = Some ''1''))"
proof -
  have p: "parseInt10 (policyString req) = Some 3"
    using hdr policyString_absent [of req] policyString_header [of req "CHR ''3''" "[]"]
    by (auto simp: parseInt10_codes)
  show ?thesis
    by (auto simp: fetchCore_def p policy_consts cache errorResponse_shape Let_def
        cacheHit_mutable)
qed

theorem cacheFirst_policy_witness:
  "fetchCore req_plain net_down (cache_with 200) ''c'' False
     = ([CacheCall ''https://pizza.com/a.js'' ''c''],
        Resolved ((ex_response 200 ''from cache'')\<lparr>res_headers := [(''X-Cache-Hit'', ''SW HIT'')]\<rparr>))
   \<and> fetchCore req_plain (net_up 404) (cache_with 401) ''c'' False
     = ([CacheCall ''https://pizza.com/a.js'' ''c'', NetworkCall (InRequest req_plain)],
        Resolved (ex_response 404 ''from network''))
   \<and> snd (fetchCore (req_policy ''3'') net_down cache_empty ''c'' False)
     = Resolved (errorResponse (JsError ''TypeError'' ''Failed to fetch''))"
proof -
  have h: "headers_get (headers req_plain) serviceWorkerPolicyHeader = None
           \<or> headers_get (headers req_plain) serviceWorkerPolicyHeader = Some ''3''"
    by code_simp
  have h3: "headers_get (headers (req_policy ''3'')) serviceWorkerPolicyHeader = None
           \<or> headers_get (headers (req_policy ''3'')) serviceWorkerPolicyHeader = Some ''3''"
    by code_simp
  have c: "cache_with 200 (url req_plain) ''c'' = Resolved (Some (ex_response 200 ''from cache''))"
    "cache_with 401 (url req_plain) ''c'' = Resolved (Some (ex_response 401 ''from cache''))"
    "cache_empty (url (req_policy ''3'')) ''c'' = Resolved None"
    by (simp_all add: cache_with_def cache_empty_def)
  have o: "ok (ex_response 200 ''from cache'')" "\<not> ok (ex_response 401 ''from cache'')"
    "headers_guard (ex_response 200 ''from cache'') = GuardResponse"
    "res_headers (ex_response 200 ''from cache'') = []"
    "url req_plain = ''https://pizza.com/a.js''"
    by (simp_all add: ok_def ex_response_def req_plain_def ex_request_def)
  have f2: "fetchCore req_plain (net_up 404) (cache_with 401) ''c'' False
     = (fst (fetchCore req_plain (net_up 404) (cache_with 401) ''c'' False),
        snd (fetchCore req_plain (net_up 404) (cache_with 401) ''c'' False))"
    by simp
  show ?thesis
    using cacheFirst_policy [where getF = "cache_with 200" and net = net_down and lg = False,
        OF h c(1)]
      cacheFirst_policy [where getF = "cache_with 401" and net = "net_up 404" and lg = False,
        OF h c(2)]
      cacheFirst_policy [where getF = cache_empty and net = net_down and lg = False,
        OF h3 c(3)] o f2
    by (simp add: net_down_def net_up_def logRequest_def)
qed

text \<open>
  C3. As stated (every entry the cache resolver returns comes back with the cache-hit
  header, whatever its status) the claim fails for an entry whose headers are immutable:
  the append throws and \<^const>\<open>fetchCore\<close> rejects.
\<close>

theorem cacheOnly_policy_counterexample:
  "headers_get (headers (req_policy ''4'')) serviceWorkerPolicyHeader = Some ''4''
   \<and> cache_frozen 401 (url (req_policy ''4'')) ''c'' = Resolved (Some (ex_frozen 401))
   \<and> fetchCore (req_policy ''4'') (net_up 200) (cache_frozen 401) ''c'' False
       = ([CacheCall ''https://pizza.com/a.js'' ''c''],
          Rejected (JsError ''TypeError'' ''immutable''))"
  by code_simp

text \<open>
  C3, amended. CacheOnly. For a request whose policy header is "4" the network is never
  called. An entry answered by the cache resolver whose headers accept an append is the
  result with X-Cache-Hit: SW HIT appended to its headers, status and body as they were,
  whatever the status; when the resolver answers null the result is the constant
  not-found response, status 404.
\<close>

theorem cacheOnly_policy:
  assumes hdr: "headers_get (headers req) serviceWorkerPolicyHeader = Some ''4''"
  shows "\<not> networkCalled (fst (fetchCore req net getF cid lg))
       \<and> (\<forall>c. getF (url req) cid = Resolved (Some c) \<and> headers_guard c = GuardResponse \<longrightarrow>
            fetchCore req net getF cid lg
              = ([CacheCall (url req) cid] @ logRequest cacheonlyTag req lg (Some c),
                 Resolved (c\<lparr>res_headers :=
                                res_headers c @ [(''X-Cache-Hit'', ''SW HIT'')]\<rparr>)))
       \<and> (getF (url req) cid = Resolved None \<longrightarrow>
            fetchCore req net getF cid lg
              = ([CacheCall (url req) cid] @ logRequest cacheonlyTag req lg None,
                 Resolved NOT_FOUND_RESPONSE)
          \<and> status NOT_FOUND_RESPONSE = 404)"
proof -
  have p: "parseInt10 (policyString req) = Some 4"
    using policyString_header [OF hdr] by (simp add: parseInt10_codes)
  show ?thesis
    by (auto simp: fetchCore_def p policy_consts cacheHit_mutable NOT_FOUND_status
        split: settled.splits option.splits)
qed

theorem cacheOnly_policy_witness:
  "\<not> networkCalled (fst (fetchCore (req_policy ''4'') (net_up 200) (cache_with 401) ''c'' False))
   \<and> fetchCore (req_policy ''4'') (net_up 200) (cache_with 401) ''c'' False
     = ([CacheCall ''https://pizza.com/a.js'' ''c''],
        Resolved ((ex_response 401 ''from cache'')\<lparr>res_headers := [(''X-Cache-Hit'', ''SW HIT'')]\<rparr>))
   \<and> snd (fetchCore (req_policy ''4'') (net_up 200) cache_empty ''c'' False)
     = Resolved NOT_FOUND_RESPONSE"
proof -
  have h: "headers_get (headers (req_policy ''4'')) serviceWorkerPolicyHeader = Some ''4''"
    by code_simp
  have o: "headers_guard (ex_response 401 ''from cache'') = GuardResponse"
    "res_headers (ex_response 401 ''from cache'') = []"
    "url (req_policy ''4'') = ''https://pizza.com/a.js''"
    by (simp_all add: ex_response_def req_policy_def ex_request_def)
  show ?thesis
    using cacheOnly_policy [OF h, of "net_up 200" "cache_with 401" "''c''" False]
      cacheOnly_policy [OF h, of "net_up 200" cache_empty "''c''" False] o
    by (simp add: cache_with_def cache_empty_def logRequest_def)
qed

text \<open>
  C4. NetworkOnly. For a request whose policy header is "2" the cache resolver is never
  called. When the network resolves, its response is the result, whatever its status;
  when it rejects, the result is a response of status 500 with the Sw-Net-Err header whose
  body is the stringified cause.
\<close>

theorem networkOnly_policy:
  assumes hdr: "headers_get (headers req) serviceWorkerPolicyHeader = Some ''2''"
  shows "\<not> cacheCalled (fst (fetchCore req net getF cid lg))
       \<and> (\<forall>res. net (InRequest req) = Resolved res \<longrightarrow>
            snd (fetchCore req net getF cid lg) = Resolved res)
       \<and> (\<forall>err. net (InRequest req) = Rejected err \<longrightarrow>
            snd (fetchCore req net getF cid lg) = Resolved (errorResponse err)
          \<and> status (errorResponse err) = 500
          \<and> headers_get (res_headers (errorResponse err)) serviceWorkerErrorCatchHeader
               = Some ''1''
          \<and> body (errorResponse err) = js_String err)"
proof -
  have p: "parseInt10 (policyString req) = Some 2"
    using policyString_header [OF hdr] by (simp add: parseInt10_codes)
  show ?thesis
    by (auto simp: fetchCore_def p policy_consts errorResponse_shape)
qed

theorem networkOnly_policy_witness:
  "\<not> cacheCalled (fst (fetchCore (req_policy ''2'') net_down (cache_with 200) ''c'' False))
   \<and> snd (fetchCore (req_policy ''2'') net_down (cache_with 200) ''c'' False)
     = Resolved (errorResponse (JsError ''TypeError'' ''Failed to fetch''))
   \<and> body (errorResponse (JsError ''TypeError'' ''Failed to fetch''))
     = ''TypeError: Failed to fetch''
   \<and> snd (fetchCore (req_policy ''2'') (net_up 403) (cache_with 200) ''c'' False)
     = Resolved (ex_response 403 ''from network'')"
proof -
  have h: "headers_get (headers (req_policy ''2'')) serviceWorkerPolicyHeader = Some ''2''"
    by code_simp
  show ?thesis
    using networkOnly_policy [OF h, of net_down "cache_with 200" "''c''" False]
      networkOnly_policy [OF h, of "net_up 403" "cache_with 200" "''c''" False]
    by (simp add: net_down_def net_up_def)
qed

text \<open>
  C5. Policy selection. As stated (every header value that is not one of the strings
  "1", "2", "3", "4" selects CacheFirst) the claim fails: \<open>parseInt\<close> reads the leading
  integer of "1abc", and the request is resolved network-first.
\<close>

theorem policy_selection_counterexample:
  "''1abc'' \<notin> {''1'', ''2'', ''3'', ''4''}
   \<and> headers_get (headers (req_policy ''1abc'')) serviceWorkerPolicyHeader = Some ''1abc''
   \<and> cache_with 200 (url (req_policy ''1abc'')) ''c''
       = Resolved (Some (ex_response 200 ''from cache''))
   \<and> fetchCore (req_policy ''1abc'') (net_up 200) (cache_with 200) ''c'' False
       \<noteq> CacheFirst_strategy (req_policy ''1abc'') (net_up 200)
            (Some (ex_response 200 ''from cache'')) ''c'' False
   \<and> fetchCore (req_policy ''1abc'') (net_up 200) (cache_with 200) ''c'' False
       = ([NetworkCall (InRequest (req_policy ''1abc''))],
          Resolved (ex_response 200 ''from network''))"
  by code_simp

text \<open>
  C5, amended. Read the header value as \<open>parseInt\<close> does: white space, an optional sign, the
  longest run of decimal digits, and a rest. When the header is absent, or the value has
  no digit at that place (the empty value included), or the digits' value, negated after
  a minus sign, is not 1, 2 or 4, \<^const>\<open>fetchCore\<close> is the CacheFirst strategy of the
  specification, applied to what the cache resolver answers.
\<close>

theorem policy_selection:
  assumes cache: "getF (url req) cid = Resolved entry"
      and pol: "headers_get (headers req) serviceWorkerPolicyHeader = None
                \<or> headers_get (headers req) serviceWorkerPolicyHeader = Some (ws @ sg @ ds @ rest)
                  \<and> (\<forall>c \<in> set ws. isStrWhiteSpaceChar c)
                  \<and> sg \<in> {[], ''+'', ''-''}
                  \<and> (\<forall>c \<in> set ds. isDigit c)
                  \<and> (case rest of [] \<Rightarrow> True
                      | c # r \<Rightarrow> \<not> isDigit c
                          \<and> (ds = [] \<and> sg = [] \<longrightarrow>
                               \<not> isStrWhiteSpaceChar c \<and> c \<noteq> CHR ''+'' \<and> c \<noteq> CHR ''-''))
                  \<and> (ds \<noteq> [] \<longrightarrow>
                        (if sg = ''-'' then - int (digitsValue ds) else int (digitsValue ds))
                          \<notin> {1, 2, 4})"
  shows "fetchCore req net getF cid lg = CacheFirst_strategy req net entry cid lg"
proof -
  have p: "parseInt10 (policyString req) \<notin> {Some 1, Some 2, Some 4}"
    using pol
  proof (elim disjE conjE)
    assume "headers_get (headers req) serviceWorkerPolicyHeader = None"
    then show ?thesis by (simp add: policyString_absent parseInt10_codes)
  next
    assume h: "headers_get (headers req) serviceWorkerPolicyHeader = Some (ws @ sg @ ds @ rest)"
      and ws: "\<forall>c \<in> set ws. isStrWhiteSpaceChar c" and sgf: "sg \<in> {[], ''+'', ''-''}"
      and ds: "\<forall>c \<in> set ds. isDigit c"
      and rest: "case rest of [] \<Rightarrow> True
                      | c # r \<Rightarrow> \<not> isDigit c
                          \<and> (ds = [] \<and> sg = [] \<longrightarrow>
                               \<not> isStrWhiteSpaceChar c \<and> c \<noteq> CHR ''+'' \<and> c \<noteq> CHR ''-'')"
      and val: "ds \<noteq> [] \<longrightarrow>
                  (if sg = ''-'' then - int (digitsValue ds) else int (digitsValue ds))
                    \<notin> {1, 2, 4}"
    show ?thesis
    proof (cases "ws @ sg @ ds @ rest = []")
      case True
      then have "policyString req = CACHE_FIRST" using h by (simp add: policyString_def)
      then show ?thesis by (simp add: parseInt10_codes)
    next
      case False
      then obtain c cs where "ws @ sg @ ds @ rest = c # cs"
        by (cases "ws @ sg @ ds @ rest") auto
      then have "policyString req = ws @ sg @ ds @ rest"
        using h policyString_header [of req c cs] by simp
      then show ?thesis
        using parseInt10_shape [OF ws sgf ds rest] val by auto
    qed
  qed
  show ?thesis
    using p
    by (cases "net (InRequest req)")
       (auto simp: fetchCore_def CacheFirst_strategy_def policy_consts cache Let_def
          cachefirstTag_def split: option.splits)
qed

theorem policy_selection_witness:
  "fetchCore (req_policy '' -12x'') net_down (cache_with 401) ''c'' False
   = ([CacheCall ''https://pizza.com/a.js'' ''c'', NetworkCall (InRequest (req_policy '' -12x''))],
      Resolved (errorResponse (JsError ''TypeError'' ''Failed to fetch'')))"
proof -
  have c: "cache_with 401 (url (req_policy '' -12x'')) ''c''
             = Resolved (Some (ex_response 401 ''from cache''))"
    by (simp add: cache_with_def)
  have h: "headers_get (headers (req_policy '' -12x'')) serviceWorkerPolicyHeader
             = Some ('' '' @ ''-'' @ ''12'' @ ''x'')"
    by code_simp
  have p: "(\<forall>c \<in> set '' ''. isStrWhiteSpaceChar c)" "''-'' \<in> {[], ''+'', ''-''}"
    "(\<forall>c \<in> set ''12''. isDigit c)"
    "(case ''x'' of [] \<Rightarrow> True
      | c # r \<Rightarrow> \<not> isDigit c
          \<and> (''12'' = [] \<and> ''-'' = [] \<longrightarrow>
               \<not> isStrWhiteSpaceChar c \<and> c \<noteq> CHR ''+'' \<and> c \<noteq> CHR ''-''))"
    "''12'' \<noteq> [] \<longrightarrow>
       (if ''-'' = ''-'' then - int (digitsValue ''12'') else int (digitsValue ''12''))
         \<notin> {1, 2, 4}"
    by (simp_all add: isStrWhiteSpaceChar_def isDigit_def digitsValue_def)
  have s: "CacheFirst_strategy (req_policy '' -12x'') net_down
             (Some (ex_response 401 ''from cache'')) ''c'' False
           = ([CacheCall ''https://pizza.com/a.js'' ''c'',
               NetworkCall (InRequest (req_policy '' -12x''))],
              Resolved (errorResponse (JsError ''TypeError'' ''Failed to fetch'')))"
    by code_simp
  show ?thesis
    using policy_selection [where getF = "cache_with 401" and req = "req_policy '' -12x''"
        and cid = "''c''" and net = net_down and lg = False
        and ws = "'' ''" and sg = "''-''" and ds = "''12''" and rest = "''x''", OF c]
      h p s
    by simp
qed

section \<open>Facts about the router\<close>

subsection \<open>Which route a URL takes\<close>

lemma route_entry:
  assumes "startsWith u (org @ ''/secure.compiled.js'')"
  shows "startsWith u org" "u \<noteq> org @ ''/''" "\<not> startsWith u (org @ RUN_PROGRAM_PATHNAME)"
proof -
  from assms obtain r where u: "u = org @ ''/secure.compiled.js'' @ r"
    by (auto simp: startsWith_def prefix_def)
  show "startsWith u org" by (simp add: u startsWith_def)
  show "u \<noteq> org @ ''/''" by (simp add: u)
  show "\<not> startsWith u (org @ RUN_PROGRAM_PATHNAME)"
    by (simp add: u startsWith_def RUN_PROGRAM_PATHNAME_def)
qed

lemma route_template:
  assumes "startsWith u (org @ RUN_PROGRAM_PATHNAME)"
  shows "startsWith u org" "u \<noteq> org @ ''/''"
proof -
  from assms obtain r where u: "u = org @ ''/runProgram'' @ r"
    by (auto simp: startsWith_def prefix_def RUN_PROGRAM_PATHNAME_def)
  show "startsWith u org" by (simp add: u startsWith_def)
  show "u \<noteq> org @ ''/''" by (simp add: u)
qed


lemma length_js_split: "length (js_split s c) = Suc (length (filter (\<lambda>x. x = c) s))"
  by (induction s) (auto split: list.splits)

lemma js_split_no_sep: "(length (js_split s c) < 2) = (c \<notin> set s)"
  by (auto simp: length_js_split filter_empty_conv)

lemma templateParams_query:
  assumes "CHR ''?'' \<in> set u"
  shows "URLSearchParams (''?'' @ js_split u CHR ''?'' ! 1) = templateParams u"
    and "URLSearchParams (CHR ''?'' # js_split u CHR ''?'' ! Suc 0) = templateParams u"
proof -
  note assms
  then have "\<not> length (js_split u CHR ''?'') < 2" by (simp add: js_split_no_sep)
  then obtain a q r where "js_split u CHR ''?'' = a # q # r"
    by (cases "js_split u CHR ''?''" rule: list.exhaust; simp)
       (metis One_nat_def Suc_1 length_0_conv length_Cons less_Suc_eq neq_Nil_conv)
  then show "URLSearchParams (''?'' @ js_split u CHR ''?'' ! 1) = templateParams u"
    and "URLSearchParams (CHR ''?'' # js_split u CHR ''?'' ! Suc 0) = templateParams u"
    by (simp_all add: templateParams_def)
qed

lemma obj_set_filter_other:
  "\<not> same_name k n \<Longrightarrow>
     filter (\<lambda>h. same_name (fst h) n) (obj_set obj k v) = filter (\<lambda>h. same_name (fst h) n) obj"
  by (induction obj) auto

lemma obj_spread_filter_other:
  "\<forall>p \<in> set extra. \<not> same_name (fst p) n \<Longrightarrow>
     filter (\<lambda>h. same_name (fst h) n) (obj_spread base extra)
       = filter (\<lambda>h. same_name (fst h) n) base"
  unfolding obj_spread_def
  by (induction extra arbitrary: base) (simp_all add: obj_set_filter_other)

lemma headers_has_set: "headers_has hs n = (\<exists>p \<in> set hs. same_name (fst p) n)"
  by (auto simp: headers_has_def filter_empty_conv)

lemma obj_spread_get_other:
  "\<not> headers_has extra n \<Longrightarrow> headers_get (obj_spread base extra) n = headers_get base n"
  by (simp add: headers_get_def headers_has_set obj_spread_filter_other)

lemma obj_set_keeps_name: "headers_has obj n \<Longrightarrow> headers_has (obj_set obj k v) n"
proof (induction obj)
  case Nil
  then show ?case by (simp add: headers_has_def)
next
  case (Cons p ps)
  then show ?case by (cases "fst p = k") (auto simp: headers_has_set)
qed

lemma obj_spread_keeps_name: "headers_has base n \<Longrightarrow> headers_has (obj_spread base extra) n"
  unfolding obj_spread_def
  by (induction extra arbitrary: base) (simp_all add: obj_set_keeps_name)

lemma obj_set_mem_new: "(k, v) \<in> set (obj_set obj k v)"
  by (induction obj) auto

lemma obj_set_mem_other: "q \<in> set obj \<Longrightarrow> fst q \<noteq> k \<Longrightarrow> q \<in> set (obj_set obj k v)"
  by (induction obj) auto

lemma obj_spread_mem_kept:
  "q \<in> set base \<Longrightarrow> fst q \<notin> fst ` set extra \<Longrightarrow> q \<in> set (obj_spread base extra)"
  unfolding obj_spread_def
  by (induction extra arbitrary: base) (auto simp: obj_set_mem_other)

lemma obj_spread_mem:
  "distinct (map fst extra) \<Longrightarrow> q \<in> set extra \<Longrightarrow> q \<in> set (obj_spread base extra)"
proof (induction extra arbitrary: base)
  case Nil
  then show ?case by simp
next
  case (Cons p ps)
  have step: "obj_spread base (p # ps) = obj_spread (obj_set base (fst p) (snd p)) ps"
    by (simp add: obj_spread_def)
  show ?case
  proof (cases "q = p")
    case True
    have "p \<in> set (obj_set base (fst p) (snd p))"
      using obj_set_mem_new [of "fst p" "snd p" base] by simp
    moreover have "fst p \<notin> fst ` set ps" using Cons.prems(1) by auto
    ultimately show ?thesis using True step obj_spread_mem_kept by metis
  next
    case False
    then show ?thesis using Cons step by auto
  qed
qed

lemma document_header_names:
  "same_name ''content-type'' ''content-type''"
  "same_name ''content-length'' ''content-length''"
  "\<not> same_name ''content-length'' ''content-type''"
  "\<not> same_name ''content-type'' ''content-length''"
  "\<not> same_name ''X-Cache-Hit'' ''content-type''"
  "\<not> same_name ''X-Cache-Hit'' ''content-length''"
  "same_name ''X-Cache-Hit'' ''X-Cache-Hit''"
  by code_simp+

subsection \<open>Header records\<close>

text \<open>The response both fallbacks build, for any asset, type and length.\<close>

lemma fallback_shape:
  fixes asset ct len extra
  defines "r \<equiv> (new_Response asset 200 ''OK''
             (obj_spread [(''content-type'', ct), (''content-length'', toString len)] extra))
           \<lparr>res_headers :=
              obj_spread [(''content-type'', ct), (''content-length'', toString len)] extra
                @ [(''X-Cache-Hit'', ''SW HIT'')]\<rparr>"
  shows "cacheHit (new_Response asset 200 ''OK''
           (obj_spread [(''content-type'', ct), (''content-length'', toString len)] extra))
         = Inr r"
    "status r = 200" "body r = asset"
    "res_headers r = obj_spread [(''content-type'', ct), (''content-length'', toString len)] extra
                       @ [(''X-Cache-Hit'', ''SW HIT'')]"
    "headers_has (res_headers r) ''X-Cache-Hit''"
    "\<not> headers_has extra ''content-type'' \<Longrightarrow>
       headers_get (res_headers r) ''content-type'' = Some ct"
    "\<not> headers_has extra ''content-length'' \<Longrightarrow>
       headers_get (res_headers r) ''content-length'' = Some (toString len)"
    "distinct (map fst extra) \<Longrightarrow> set extra \<subseteq> set (res_headers r)"
proof -
  let ?base = "[(''content-type'', ct), (''content-length'', toString len)]"
  have has: "headers_has (obj_spread ?base extra) ''content-type''"
    by (rule obj_spread_keeps_name) (simp add: headers_has_def document_header_names)
  then have nr: "new_Response asset 200 ''OK'' (obj_spread ?base extra)
      = \<lparr>status = 200, statusText = ''OK'', res_headers = obj_spread ?base extra,
         headers_guard = GuardResponse, body = asset\<rparr>"
    by (simp add: new_Response_def)
  show "cacheHit (new_Response asset 200 ''OK'' (obj_spread ?base extra)) = Inr r"
    by (simp add: r_def nr cacheHit_mutable)
  show "status r = 200" "body r = asset" by (simp_all add: r_def nr)
  show hs: "res_headers r = obj_spread ?base extra @ [(''X-Cache-Hit'', ''SW HIT'')]"
    by (simp add: r_def nr)
  show "headers_has (res_headers r) ''X-Cache-Hit''"
    by (simp add: hs headers_has_def document_header_names)
  show "headers_get (res_headers r) ''content-type'' = Some ct"
    if "\<not> headers_has extra ''content-type''"
  proof -
    have "headers_get (res_headers r) ''content-type''
            = headers_get (obj_spread ?base extra) ''content-type''"
      by (simp add: hs headers_get_def document_header_names)
    also have "\<dots> = headers_get ?base ''content-type''"
      using that by (rule obj_spread_get_other)
    also have "\<dots> = Some ct" by (simp add: headers_get_def document_header_names)
    finally show ?thesis .
  qed
  show "headers_get (res_headers r) ''content-length'' = Some (toString len)"
    if "\<not> headers_has extra ''content-length''"
  proof -
    have "headers_get (res_headers r) ''content-length''
            = headers_get (obj_spread ?base extra) ''content-length''"
      by (simp add: hs headers_get_def document_header_names)
    also have "\<dots> = headers_get ?base ''content-length''"
      using that by (rule obj_spread_get_other)
    also have "\<dots> = Some (toString len)" by (simp add: headers_get_def document_header_names)
    finally show ?thesis .
  qed
  show "set extra \<subseteq> set (res_headers r)" if "distinct (map fst extra)"
    using that by (auto simp: hs obj_spread_mem)
qed

lemma document_shape:
  fixes asset ct len extra
  defines "r \<equiv> new_Response asset 200 ''OK''
             (obj_spread [(''content-type'', ct), (''content-length'', toString len)] extra)"
  shows "status r = 200" "body r = asset"
    "res_headers r = obj_spread [(''content-type'', ct), (''content-length'', toString len)] extra"
    "\<not> headers_has extra ''content-type'' \<Longrightarrow>
       headers_get (res_headers r) ''content-type'' = Some ct"
    "\<not> headers_has extra ''content-length'' \<Longrightarrow>
       headers_get (res_headers r) ''content-length'' = Some (toString len)"
    "distinct (map fst extra) \<Longrightarrow> set extra \<subseteq> set (res_headers r)"
proof -
  let ?base = "[(''content-type'', ct), (''content-length'', toString len)]"
  have "headers_has (obj_spread ?base extra) ''content-type''"
    by (rule obj_spread_keeps_name) (simp add: headers_has_def document_header_names)
  then have nr: "r = \<lparr>status = 200, statusText = ''OK'',
                       res_headers = obj_spread ?base extra,
                       headers_guard = GuardResponse, body = asset\<rparr>"
    by (simp add: r_def new_Response_def)
  show "status r = 200" "body r = asset" "res_headers r = obj_spread ?base extra"
    by (simp_all add: nr)
  show "headers_get (res_headers r) ''content-type'' = Some ct"
    if "\<not> headers_has extra ''content-type''"
    using obj_spread_get_other [OF that, of ?base]
    by (simp add: nr headers_get_def document_header_names)
  show "headers_get (res_headers r) ''content-length'' = Some (toString len)"
    if "\<not> headers_has extra ''content-length''"
    using obj_spread_get_other [OF that, of ?base]
    by (simp add: nr headers_get_def document_header_names)
  show "set extra \<subseteq> set (res_headers r)" if "distinct (map fst extra)"
    using that by (auto simp: nr obj_spread_mem)
qed

subsection \<open>The routes as equations\<close>


lemma entry_route_runs:
  assumes "startsWith (url (request ev)) (origin opts @ ''/secure.compiled.js'')"
  shows "createFetchHandler inl opts ev =
      (case networkFetch opts (InUrl (origin opts @ ''/secure.compiled.js'')) of
         Resolved res \<Rightarrow> ([NetworkCall (InUrl (origin opts @ ''/secure.compiled.js''))], Resolved res)
       | Rejected err \<Rightarrow>
           ([NetworkCall (InUrl (origin opts @ ''/secure.compiled.js''))],
            returned (cacheHit (new_Response (SecureMjs inl) 200 ''OK''
              (obj_spread [(''content-type'', ''text/javascript''),
                           (''content-length'', toString (SECURE_MJS_LENGTH inl))]
                 (configuredHeaders opts))))))"
  using assms route_entry [OF assms] by (simp add: createFetchHandler_def Let_def)

lemma template_route_renders:
  assumes route: "startsWith (url (request ev)) (origin opts @ RUN_PROGRAM_PATHNAME)"
      and q: "CHR ''?'' \<in> set (url (request ev))"
      and csp: "params_get (templateParams (url (request ev))) ''csp'' = Some c"
      and entry: "params_get (templateParams (url (request ev))) ''entry'' = Some e"
      and dc: "decodeURIComponent c = Inr C"
      and de: "decodeURIComponent e = Inr E"
  shows "createFetchHandler inl opts ev =
           ([], Resolved (new_Response (generateTemplate E C) 200 ''OK''
                  (obj_spread
                     [(''content-type'', ''text/html''),
                      (''content-length'', toString (length (generateTemplate E C)))]
                     (configuredHeaders opts))))"
  using route_template [OF route] route q csp entry dc de
  by (simp add: createFetchHandler_def Let_def js_split_no_sep params_has_def params_get_def
      templateParams_query)

subsection \<open>The template text\<close>

lemma js_trim_between:
  assumes "isTrimChar w" "\<not> isTrimChar a" "\<not> isTrimChar z"
  shows "js_trim (w # a # m @ [z]) = a # m @ [z]"
  using assms by (simp add: js_trim_def)

lemma trim_chars:
  "isTrimChar (CHR 0x0A)" "\<not> isTrimChar CHR ''<''" "\<not> isTrimChar CHR ''>''"
  by (simp_all add: isTrimChar_def)

lemma generateTemplate_parts:
  \<open>generateTemplate E C =
     template_before
     @ ''<meta http-equiv="Content-Security-Policy" content="'' @ C @ ''"/>''
     @ template_between
     @ ''<script entry="'' @ E @ ''" id="root-script"''
     @ template_after\<close>
proof -
  have \<open>join_lines
       [[],
        ''<!DOCTYPE html>'',
        ''<html lang="en">'',
        ''<head>'',
        ''    <meta charset="UTF-8">'',
        ''    <meta http-equiv="X-UA-Compatible" content="IE=edge">'',
        ''    <meta name="viewport" content="width=device-width, initial-scale=1.0">'',
        ''    <title>Sandbox</title>'',
        ''    <meta http-equiv="Content-Security-Policy" content="'' @ C @ ''"/>'',
        ''</head>'',
        ''<body>'',
        ''    <script entry="'' @ E
           @ ''" id="root-script" src="./secure.compiled.js" type="module" defer> </script>'',
        ''</body>'',
        ''</html>'']
     = CHR 0x0A # CHR ''<'' #
        (tl (template_before
          @ ''<meta http-equiv="Content-Security-Policy" content="'' @ C @ ''"/>''
          @ template_between
          @ ''<script entry="'' @ E @ ''" id="root-script"''
          @ butlast template_after)) @ [CHR ''>'']\<close>
    by (simp add: join_lines_def template_before_def template_between_def template_after_def)
  then have \<open>generateTemplate E C = CHR ''<'' #
        (tl (template_before
          @ ''<meta http-equiv="Content-Security-Policy" content="'' @ C @ ''"/>''
          @ template_between
          @ ''<script entry="'' @ E @ ''" id="root-script"''
          @ butlast template_after)) @ [CHR ''>'']\<close>
    by (simp only: generateTemplate_def js_trim_between [OF trim_chars])
  then show ?thesis
    by (simp add: join_lines_def template_before_def template_between_def template_after_def)
qed

subsection \<open>Where the handler can reject\<close>

text \<open>
  With a cache resolver that never rejects, \<^const>\<open>fetchCore\<close> rejects only when
  \<^const>\<open>cacheHit\<close> meets an entry whose headers are immutable. The handler rejects there
  and in two places of its own: on the test-probe route, with the cause of the network's
  rejection, and on the template route, with the URIError of \<open>decodeURIComponent\<close>.
\<close>

lemma fetchCore_rejections:
  assumes cache: "\<And>u c. \<exists>x. getF u c = Resolved x"
      and rej: "snd (fetchCore req net getF cid lg) = Rejected cause"
  shows "\<exists>c. getF (url req) cid = Resolved (Some c) \<and> headers_guard c = GuardImmutable
           \<and> cause = JsError ''TypeError'' ''immutable''"
proof -
  obtain x where x: "getF (url req) cid = Resolved x" using cache by blast
  have hit: "returned (cacheHit c) = Rejected cause \<Longrightarrow>
               headers_guard c = GuardImmutable \<and> cause = JsError ''TypeError'' ''immutable''" for c
    by (cases "headers_guard c") (simp_all add: cacheHit_mutable cacheHit_immutable)
  show ?thesis
    using rej hit
    by (cases "net (InRequest req)"; cases x)
       (auto simp: fetchCore_def x Let_def split: if_splits)
qed

lemma handler_rejections:
  assumes cache: "\<And>u c. \<exists>x. getClientFile opts u c = Resolved x"
      and rej: "snd (createFetchHandler inl opts ev) = Rejected cause"
  shows "startsWith (url (request ev)) (origin opts @ ''/test.mjs'')
           \<and> networkFetch opts (InRequest (request ev)) = Rejected cause
         \<or> startsWith (url (request ev)) (origin opts @ RUN_PROGRAM_PATHNAME)
           \<and> cause = JsError ''URIError'' ''URI malformed''
         \<or> \<not> startsWith (url (request ev)) (origin opts)
           \<and> cause = JsError ''TypeError'' ''immutable''"
proof (cases "startsWith (url (request ev)) (origin opts)")
  case False
  then have "createFetchHandler inl opts ev =
      fetchCore (request ev) (networkFetch opts) (getClientFile opts)
        (if clientId ev \<noteq> [] then clientId ev else resultingClientId ev) (config_log opts)"
    by (simp add: createFetchHandler_def Let_def)
  then show ?thesis
    using rej False
      fetchCore_rejections [where getF = "getClientFile opts" and req = "request ev"
        and net = "networkFetch opts" and lg = "config_log opts" and cause = cause
        and cid = "if clientId ev \<noteq> [] then clientId ev else resultingClientId ev",
        OF cache]
    by auto
next
  case True
  have fb: "returned (cacheHit (new_Response asset 200 ''OK''
              (obj_spread [(''content-type'', ct), (''content-length'', toString len)] extra)))
            \<noteq> Rejected cause" for asset ct len extra
    by (simp add: fallback_shape(1))
  show ?thesis
    using rej True fb
    by (auto simp: createFetchHandler_def Let_def decodeURIComponent_def
        split: if_splits settled.splits sum.splits option.splits)
qed

section \<open>The router's claims\<close>

text \<open>
  C6. The claim is that the handler always resolves to a response, the test-probe route
  included. The code returns the network's promise on that route without awaiting it
  inside a \<open>try\<close>: with a network that rejects, the handler rejects with the same cause.
\<close>

theorem handler_rejects_on_test_probe:
  "createFetchHandler ex_inlined (ex_options net_down) (ex_event ''https://donuts.com/test.mjs'')
   = ([NetworkCall (InRequest (ex_request ''https://donuts.com/test.mjs'' []))],
      Rejected (JsError ''TypeError'' ''Failed to fetch''))"
  by code_simp

theorem handler_rejects_on_test_probe_witness:
  "snd (createFetchHandler ex_inlined (ex_options net_down)
          (ex_event ''https://donuts.com/test.mjs''))
   = Rejected (JsError ''TypeError'' ''Failed to fetch'')"
  using handler_rejects_on_test_probe by simp







text \<open>
  C9. The claim is that every template request carrying \<open>csp\<close> and \<open>entry\<close> gets the
  rendered template with status 200. The handler decodes the values a second time, after
  URLSearchParams has decoded them; for \<open>csp=%25\<close> the value is a lone percent sign,
  \<open>decodeURIComponent\<close> throws, and the handler rejects.
\<close>

theorem template_rejects_on_percent:
  "params_get (templateParams ''https://donuts.com/runProgram?csp=%25&entry=index.js'') ''csp''
     = Some ''%''
   \<and> params_get (templateParams ''https://donuts.com/runProgram?csp=%25&entry=index.js'') ''entry''
     = Some ''index.js''
   \<and> createFetchHandler ex_inlined (ex_options (net_up 200))
        (ex_event ''https://donuts.com/runProgram?csp=%25&entry=index.js'')
     = ([], Rejected (JsError ''URIError'' ''URI malformed''))"
  by code_simp

theorem template_rejects_on_percent_witness:
  "snd (createFetchHandler ex_inlined (ex_options (net_up 200))
        (ex_event ''https://donuts.com/runProgram?csp=%25&entry=index.js''))
     = Rejected (JsError ''URIError'' ''URI malformed'')"
  using template_rejects_on_percent by simp

text \<open>
  C10. For requests whose URL starts with the entry script's, the one call the handler
  makes is \<open>networkFetch\<close> on the fixed entry-script URL, and two such events handled
  with the same options give the same calls and the same result, whatever else the
  events hold.
\<close>

theorem entry_script_fixed_url:
  assumes "startsWith (url (request ev1)) (origin opts @ ''/secure.compiled.js'')"
      and "startsWith (url (request ev2)) (origin opts @ ''/secure.compiled.js'')"
  shows "fst (createFetchHandler inl opts ev1)
           = [NetworkCall (InUrl (origin opts @ ''/secure.compiled.js''))]
       \<and> createFetchHandler inl opts ev1 = createFetchHandler inl opts ev2"
  by (simp add: entry_route_runs [OF assms(1)] entry_route_runs [OF assms(2)]
      split: settled.splits)

theorem entry_script_fixed_url_witness:
  "fst (createFetchHandler ex_inlined (ex_options (net_up 200))
         (ex_event ''https://donuts.com/secure.compiled.js''))
     = [NetworkCall (InUrl ''https://donuts.com/secure.compiled.js'')]
   \<and> createFetchHandler ex_inlined (ex_options (net_up 200))
         (ex_event ''https://donuts.com/secure.compiled.js'')
     = createFetchHandler ex_inlined (ex_options (net_up 200)) ex_event_other"
proof -
  have a: "startsWith (url (request (ex_event ''https://donuts.com/secure.compiled.js'')))
             (origin (ex_options (net_up 200)) @ ''/secure.compiled.js'')"
    by code_simp
  have b: "startsWith (url (request ex_event_other))
             (origin (ex_options (net_up 200)) @ ''/secure.compiled.js'')"
    by code_simp
  have o: "origin (ex_options (net_up 200)) @ ''/secure.compiled.js''
             = ''https://donuts.com/secure.compiled.js''"
    by (simp add: ex_options_def)
  from entry_script_fixed_url [OF a b, of ex_inlined]
  have 1: "fst (createFetchHandler ex_inlined (ex_options (net_up 200))
                 (ex_event ''https://donuts.com/secure.compiled.js''))
            = [NetworkCall (InUrl (origin (ex_options (net_up 200)) @ ''/secure.compiled.js''))]"
    and 2: "createFetchHandler ex_inlined (ex_options (net_up 200))
              (ex_event ''https://donuts.com/secure.compiled.js'')
            = createFetchHandler ex_inlined (ex_options (net_up 200)) ex_event_other"
    by blast+
  show ?thesis
    using 1 2 unfolding o by (rule conjI)
qed

end
